theory Spec2Isabelle
  imports
    Main
    "HOL-Library.Char_ord"
    "HOL-Library.List_Lexorder"
    "HOL-Library.Signed_Division"
begin

section \<open>The state engine of tuido (main.go)\<close>

text \<open>
  The development embeds the state-changing part of \<^verbatim>\<open>main.go\<close>: the task and
  model records, the helper methods on \<^verbatim>\<open>*Model\<close> (lines 903 to 1402) and the
  \<^verbatim>\<open>Update\<close> dispatcher (lines 334 to 630). Rendering is left out.

  Conventions.
  \<^item> A Go slice is a list, a Go string is a list of bytes (\<open>string\<close>). Slices are
    used by value: \<^verbatim>\<open>saveStateForUndo\<close> copies the task slice into a fresh array, and
    the tag slices shared by such a copy are only ever appended to or replaced.
  \<^item> Go's \<^verbatim>\<open>int\<close> is \<open>int\<close>. The identifier counter is the one integer that only
    grows and is read from a file, so its increment is written with the wrap-around of a
    64-bit integer. Cursor arithmetic is on values bounded by slice lengths.
  \<^item> An index expression outside the slice is a run-time panic: every operation returns
    \<open>error + Model\<close>, with \<open>Inl IndexOutOfRange\<close> for the panic.
  \<^item> The loop \<^verbatim>\<open>for i := range m.tasks { if m.tasks[i].ID == id { BODY; break } }\<close>
    is \<open>findByID\<close> (the first index carrying the identifier) followed by the body at
    that index.
\<close>

subsection \<open>Library functions on strings\<close>

text \<open>
  \<^verbatim>\<open>strings.ToLower\<close> and \<^verbatim>\<open>strings.TrimSpace\<close> are modelled on the ASCII range,
  where Go's Unicode-aware functions agree with them; \<^verbatim>\<open>strings.Split\<close>,
  \<^verbatim>\<open>strings.Contains\<close> and \<^verbatim>\<open>strconv.Atoi\<close> work on bytes in Go as well.
\<close>

definition lowerChar :: "char \<Rightarrow> char" where
  "lowerChar c =
     (if CHR ''A'' \<le> c \<and> c \<le> CHR ''Z'' then char_of (of_char c + (32::nat)) else c)"

definition ToLower :: "string \<Rightarrow> string" where
  "ToLower s = map lowerChar s"

definition isSpace :: "char \<Rightarrow> bool" where
  "isSpace c = (c = CHR '' '' \<or> (CHR 0x09 \<le> c \<and> c \<le> CHR 0x0D))"

definition TrimSpace :: "string \<Rightarrow> string" where
  "TrimSpace s = rev (dropWhile isSpace (rev (dropWhile isSpace s)))"

fun hasPrefix :: "string \<Rightarrow> string \<Rightarrow> bool" where
  "hasPrefix s [] = True"
| "hasPrefix [] (p # ps) = False"
| "hasPrefix (c # cs) (p # ps) = (c = p \<and> hasPrefix cs ps)"

fun Contains :: "string \<Rightarrow> string \<Rightarrow> bool" where
  "Contains [] sub = (sub = [])"
| "Contains (c # cs) sub = (hasPrefix (c # cs) sub \<or> Contains cs sub)"

text \<open>\<^verbatim>\<open>strings.Split(s, "-")\<close>: the pieces between the separators, always at least one.\<close>

fun splitOn :: "char \<Rightarrow> string \<Rightarrow> string list" where
  "splitOn sep [] = [[]]"
| "splitOn sep (c # cs) =
     (if c = sep then [] # splitOn sep cs
      else (c # hd (splitOn sep cs)) # tl (splitOn sep cs))"

definition isDigit :: "char \<Rightarrow> bool" where
  "isDigit c = (CHR ''0'' \<le> c \<and> c \<le> CHR ''9'')"

fun digitsFrom :: "int \<Rightarrow> string \<Rightarrow> int option" where
  "digitsFrom n [] = Some n"
| "digitsFrom n (c # cs) =
     (if isDigit c then digitsFrom (n * 10 + (of_char c - 48)) cs else None)"

text \<open>
  \<^verbatim>\<open>strconv.Atoi\<close>: an optional sign, then one or more decimal digits; a value outside
  the 64-bit range is an error as well.
\<close>

definition Atoi :: "string \<Rightarrow> int option" where
  "Atoi s =
     (case s of
        [] \<Rightarrow> None
      | c # r \<Rightarrow>
          (let neg = (c = CHR ''-'');
               ds = (if c = CHR ''-'' \<or> c = CHR ''+'' then r else s)
           in if ds = [] then None
              else (case digitsFrom 0 ds of
                      None \<Rightarrow> None
                    | Some n \<Rightarrow>
                        (let v = (if neg then - n else n)
                         in if - (2 ^ 63) \<le> v \<and> v < 2 ^ 63 then Some v else None))))"

subsection \<open>Data model\<close>

record Task =
  ID :: int
  Text :: string
  Checked :: bool
  Context :: string
  Priority :: string
  Tags :: "string list"
  DueDate :: string

text \<open>The field \<^verbatim>\<open>Task.Task\<close> of the source is \<open>Text\<close> here.\<close>

datatype ViewMode =
  NormalView | SearchView | KanbanView | StatsView | InputView | DateInputView | RemoveTagView

datatype InputMode =
  AddTaskInput | EditTaskInput | AddContextInput | RenameContextInput | AddTagInput
  | SearchInput | DeleteConfirmInput

text \<open>
  The model without its widgets (\<^verbatim>\<open>textInput\<close>, \<^verbatim>\<open>dateInputs\<close>, \<^verbatim>\<open>help\<close>), its key map
  and its configuration path.
\<close>

record Model =
  tasks :: "Task list"
  contexts :: "string list"
  currentContext :: string
  selectedIndex :: int
  nextID :: int
  viewMode :: ViewMode
  inputMode :: InputMode
  searchResults :: "Task list"
  prevContext :: string
  prevIndex :: int
  movingMode :: bool
  movingTaskIndex :: int
  dateInputIndex :: int
  removeTagIndex :: int
  removeTagChecks :: "bool list"
  inputPrompt :: string
  windowWidth :: int
  windowHeight :: int
  errorMessage :: string
  history :: "Task list list"
  maxHistory :: int

datatype error = IndexOutOfRange

definition emptyTask :: Task where
  "emptyTask = \<lparr>ID = 0, Text = [], Checked = False, Context = [], Priority = [],
                Tags = [], DueDate = []\<rparr>"

definition len :: "'a list \<Rightarrow> int" where
  "len xs = int (length xs)"

definition index :: "'a list \<Rightarrow> int \<Rightarrow> error + 'a" where
  "index xs i = (if 0 \<le> i \<and> i < len xs then Inr (xs ! nat i) else Inl IndexOutOfRange)"

definition wrap64 :: "int \<Rightarrow> int" where
  "wrap64 x = (x + 2 ^ 63) mod 2 ^ 64 - 2 ^ 63"

fun findByID :: "int \<Rightarrow> Task list \<Rightarrow> nat option" where
  "findByID tid [] = None"
| "findByID tid (t # ts) =
     (if ID t = tid then Some 0 else map_option Suc (findByID tid ts))"

subsection \<open>Projections\<close>

definition getTasksForContext :: "Model \<Rightarrow> string \<Rightarrow> Task list" where
  "getTasksForContext m c = filter (\<lambda>t. Context t = c) (tasks m)"

definition getFilteredTasks :: "Model \<Rightarrow> Task list" where
  "getFilteredTasks m =
     (if viewMode m = SearchView then searchResults m
      else getTasksForContext m (currentContext m))"

definition getCurrentTask :: "Model \<Rightarrow> error + Task" where
  "getCurrentTask m =
     (let ts = getFilteredTasks m
      in if len ts = 0 \<or> selectedIndex m \<ge> len ts then Inr emptyTask
         else index ts (selectedIndex m))"

subsection \<open>Cursor and context navigation\<close>

definition moveUp :: "Model \<Rightarrow> Model" where
  "moveUp m =
     (let ts = getFilteredTasks m
      in if len ts > 0
         then m\<lparr>selectedIndex := (selectedIndex m - 1 + len ts) smod len ts\<rparr>
         else m)"

definition moveDown :: "Model \<Rightarrow> Model" where
  "moveDown m =
     (let ts = getFilteredTasks m
      in if len ts > 0
         then m\<lparr>selectedIndex := (selectedIndex m + 1) smod len ts\<rparr>
         else m)"

definition swap :: "nat \<Rightarrow> nat \<Rightarrow> 'a list \<Rightarrow> 'a list" where
  "swap i j xs = xs[i := xs ! j, j := xs ! i]"

definition moveTaskUp :: "Model \<Rightarrow> error + Model" where
  "moveTaskUp m =
     (let ts = getFilteredTasks m
      in if selectedIndex m > 0
         then (case index ts (selectedIndex m) of
                 Inl e \<Rightarrow> Inl e
               | Inr taskToMove \<Rightarrow>
                   (case findByID (ID taskToMove) (tasks m) of
                      None \<Rightarrow> Inr (m\<lparr>selectedIndex := selectedIndex m - 1\<rparr>)
                    | Some i \<Rightarrow>
                        if i = 0 then Inl IndexOutOfRange
                        else Inr (m\<lparr>tasks := swap i (i - 1) (tasks m),
                                    selectedIndex := selectedIndex m - 1\<rparr>)))
         else Inr m)"

definition moveTaskDown :: "Model \<Rightarrow> error + Model" where
  "moveTaskDown m =
     (let ts = getFilteredTasks m
      in if selectedIndex m < len ts - 1
         then (case index ts (selectedIndex m) of
                 Inl e \<Rightarrow> Inl e
               | Inr taskToMove \<Rightarrow>
                   (case findByID (ID taskToMove) (tasks m) of
                      None \<Rightarrow> Inr (m\<lparr>selectedIndex := selectedIndex m + 1\<rparr>)
                    | Some i \<Rightarrow>
                        if i + 1 \<ge> length (tasks m) then Inl IndexOutOfRange
                        else Inr (m\<lparr>tasks := swap i (i + 1) (tasks m),
                                    selectedIndex := selectedIndex m + 1\<rparr>)))
         else Inr m)"

text \<open>The first position of a string in a slice, for the loops that search one.\<close>

fun firstIndex :: "string \<Rightarrow> string list \<Rightarrow> nat option" where
  "firstIndex c [] = None"
| "firstIndex c (x # xs) = (if x = c then Some 0 else map_option Suc (firstIndex c xs))"

definition findContextIndex :: "Model \<Rightarrow> string \<Rightarrow> nat" where
  "findContextIndex m c = (case firstIndex c (contexts m) of Some i \<Rightarrow> i | None \<Rightarrow> 0)"

text \<open>
  In the next two functions the index into \<^verbatim>\<open>m.contexts\<close> is a remainder modulo
  its positive length, taken of a non-negative number: it is always in range.
\<close>

definition nextContext :: "Model \<Rightarrow> Model" where
  "nextContext m =
     (if len (contexts m) > 0
      then (let currentIdx = int (findContextIndex m (currentContext m));
                nextIdx = (currentIdx + 1) smod len (contexts m)
            in m\<lparr>currentContext := contexts m ! nat nextIdx, selectedIndex := 0\<rparr>)
      else m)"

definition previousContext :: "Model \<Rightarrow> Model" where
  "previousContext m =
     (if len (contexts m) > 0
      then (let currentIdx = int (findContextIndex m (currentContext m));
                prevIdx = (currentIdx - 1 + len (contexts m)) smod len (contexts m)
            in m\<lparr>currentContext := contexts m ! nat prevIdx, selectedIndex := 0\<rparr>)
      else m)"

subsection \<open>Operations on the selected task\<close>

text \<open>
  The preamble shared by the operations on the selected task:
  \<^verbatim>\<open>tasks := m.getFilteredTasks(); if len(tasks) == 0 { return };
  currentTask := tasks[m.selectedIndex]; for i := range m.tasks {
  if m.tasks[i].ID == currentTask.ID { BODY; break } }\<close>.
  Only the emptiness of the visible list is tested before it is indexed.
\<close>

definition onCurrentTask :: "Model \<Rightarrow> (nat \<Rightarrow> error + Model) \<Rightarrow> error + Model" where
  "onCurrentTask m body =
     (let ts = getFilteredTasks m
      in if len ts = 0 then Inr m
         else (case index ts (selectedIndex m) of
                 Inl e \<Rightarrow> Inl e
               | Inr currentTask \<Rightarrow>
                   (case findByID (ID currentTask) (tasks m) of
                      None \<Rightarrow> Inr m
                    | Some i \<Rightarrow> body i)))"

definition toggleCurrentTask :: "Model \<Rightarrow> error + Model" where
  "toggleCurrentTask m =
     onCurrentTask m (\<lambda>i.
       Inr (m\<lparr>tasks := (tasks m)[i := (tasks m ! i)\<lparr>Checked := \<not> Checked (tasks m ! i)\<rparr>]\<rparr>))"

definition editCurrentTask :: "string \<Rightarrow> Model \<Rightarrow> error + Model" where
  "editCurrentTask newText m =
     onCurrentTask m (\<lambda>i.
       Inr (m\<lparr>tasks := (tasks m)[i := (tasks m ! i)\<lparr>Text := newText\<rparr>]\<rparr>))"

definition priorities :: "string list" where
  "priorities = ['''', ''low'', ''medium'', ''high'']"

definition nextPriority :: "string \<Rightarrow> string" where
  "nextPriority p =
     (let currentIdx = (case firstIndex p priorities of Some j \<Rightarrow> j | None \<Rightarrow> 0);
          nextIdx = (currentIdx + 1) mod length priorities
      in priorities ! nextIdx)"

definition toggleCurrentTaskPriority :: "Model \<Rightarrow> error + Model" where
  "toggleCurrentTaskPriority m =
     onCurrentTask m (\<lambda>i.
       Inr (m\<lparr>tasks := (tasks m)[i := (tasks m ! i)\<lparr>Priority := nextPriority (Priority (tasks m ! i))\<rparr>]\<rparr>))"

definition addTagToCurrentTask :: "string \<Rightarrow> Model \<Rightarrow> error + Model" where
  "addTagToCurrentTask tag m =
     onCurrentTask m (\<lambda>i.
       if tag \<in> set (Tags (tasks m ! i)) then Inr m
       else Inr (m\<lparr>tasks := (tasks m)[i := (tasks m ! i)\<lparr>Tags := Tags (tasks m ! i) @ [tag]\<rparr>]\<rparr>))"

text \<open>
  The inner loop of \<^verbatim>\<open>removeTagsFromCurrentTask\<close> reads \<^verbatim>\<open>m.removeTagChecks[j]\<close>
  for every position \<open>j\<close> of the tag slice.
\<close>

fun dropChecked :: "string list \<Rightarrow> bool list \<Rightarrow> error + string list" where
  "dropChecked [] cs = Inr []"
| "dropChecked (t # ts) [] = Inl IndexOutOfRange"
| "dropChecked (t # ts) (c # cs) =
     (case dropChecked ts cs of
        Inl e \<Rightarrow> Inl e
      | Inr r \<Rightarrow> Inr (if c then r else t # r))"

definition removeTagsFromCurrentTask :: "Model \<Rightarrow> error + Model" where
  "removeTagsFromCurrentTask m =
     onCurrentTask m (\<lambda>i.
       case dropChecked (Tags (tasks m ! i)) (removeTagChecks m) of
         Inl e \<Rightarrow> Inl e
       | Inr newTags \<Rightarrow> Inr (m\<lparr>tasks := (tasks m)[i := (tasks m ! i)\<lparr>Tags := newTags\<rparr>]\<rparr>))"

text \<open>The nested conditions of the date validation, lines 1253 to 1257.\<close>

definition dateAccepted :: "string \<Rightarrow> bool" where
  "dateAccepted dateStr =
     (let parts = splitOn CHR ''-'' dateStr
      in length parts = 3 \<and>
         (case Atoi (parts ! 0) of
            None \<Rightarrow> False
          | Some year \<Rightarrow>
              year > 1900 \<and> year < 3000 \<and>
              (case Atoi (parts ! 1) of
                 None \<Rightarrow> False
               | Some month \<Rightarrow>
                   month \<ge> 1 \<and> month \<le> 12 \<and>
                   (case Atoi (parts ! 2) of
                      None \<Rightarrow> False
                    | Some day \<Rightarrow> day \<ge> 1 \<and> day \<le> 31))))"

definition invalidDateMessage :: string where
  "invalidDateMessage = ''Invalid date format. Use YYYY-MM-DD''"

definition setDueDateForCurrentTask :: "string \<Rightarrow> Model \<Rightarrow> error + Model" where
  "setDueDateForCurrentTask dateStr m =
     onCurrentTask m (\<lambda>i.
       if ToLower dateStr = ''clear''
       then Inr (m\<lparr>tasks := (tasks m)[i := (tasks m ! i)\<lparr>DueDate := []\<rparr>]\<rparr>)
       else if dateStr \<noteq> []
       then (if dateAccepted dateStr
             then Inr (m\<lparr>tasks := (tasks m)[i := (tasks m ! i)\<lparr>DueDate := dateStr\<rparr>]\<rparr>)
             else Inr (m\<lparr>errorMessage := invalidDateMessage\<rparr>))
       else Inr m)"

subsection \<open>Adding and deleting tasks\<close>

definition addTask :: "string \<Rightarrow> Model \<Rightarrow> Model" where
  "addTask taskText m =
     (let newTask = \<lparr>ID = nextID m, Text = taskText, Checked = False,
                     Context = currentContext m, Priority = [], Tags = [], DueDate = []\<rparr>;
          m1 = m\<lparr>tasks := tasks m @ [newTask], nextID := wrap64 (nextID m + 1)\<rparr>;
          filtered = getFilteredTasks m1
      in m1\<lparr>selectedIndex := len filtered - 1\<rparr>)"

definition removeAt :: "nat \<Rightarrow> 'a list \<Rightarrow> 'a list" where
  "removeAt i xs = take i xs @ drop (Suc i) xs"

definition deleteCurrentTask :: "Model \<Rightarrow> error + Model" where
  "deleteCurrentTask m =
     (let ts = getFilteredTasks m
      in if len ts = 0 then Inr m
         else (case index ts (selectedIndex m) of
                 Inl e \<Rightarrow> Inl e
               | Inr currentTask \<Rightarrow>
                   (let m1 = (case findByID (ID currentTask) (tasks m) of
                                None \<Rightarrow> m
                              | Some i \<Rightarrow> m\<lparr>tasks := removeAt i (tasks m)\<rparr>);
                        newTasks = getFilteredTasks m1
                    in if selectedIndex m1 \<ge> len newTasks \<and> len newTasks > 0
                       then Inr (m1\<lparr>selectedIndex := len newTasks - 1\<rparr>)
                       else Inr m1)))"

subsection \<open>Contexts\<close>

definition addContext :: "string \<Rightarrow> Model \<Rightarrow> Model" where
  "addContext contextName m =
     (if contextName \<in> set (contexts m)
      then m\<lparr>errorMessage := ''Context already exists''\<rparr>
      else m\<lparr>contexts := contexts m @ [contextName], currentContext := contextName,
             selectedIndex := 0\<rparr>)"

definition renameContext :: "string \<Rightarrow> Model \<Rightarrow> Model" where
  "renameContext newName m =
     (if newName = currentContext m then m
      else if newName \<in> set (contexts m)
      then m\<lparr>errorMessage := ''Context name already exists''\<rparr>
      else (let oldName = currentContext m
            in m\<lparr>contexts := (case firstIndex oldName (contexts m) of
                                None \<Rightarrow> contexts m
                              | Some i \<Rightarrow> (contexts m)[i := newName]),
                  tasks := map (\<lambda>t. if Context t = oldName then t\<lparr>Context := newName\<rparr> else t)
                             (tasks m),
                  currentContext := newName\<rparr>))"

definition deleteContext :: "Model \<Rightarrow> Model" where
  "deleteContext m =
     (if len (contexts m) \<le> 1
      then m\<lparr>errorMessage := ''Cannot delete the only context''\<rparr>
      else (let newTasks = filter (\<lambda>t. Context t \<noteq> currentContext m) (tasks m);
                newContexts = filter (\<lambda>c. c \<noteq> currentContext m) (contexts m);
                m1 = m\<lparr>tasks := newTasks, contexts := newContexts\<rparr>
            in if len newContexts > 0
               then m1\<lparr>currentContext := newContexts ! 0, selectedIndex := 0\<rparr>
               else m1))"

text \<open>
  \<^verbatim>\<open>updateContexts\<close> collects the contexts of the tasks in a map and sorts its keys
  with \<^verbatim>\<open>sort.Strings\<close>: the sorted list of the distinct contexts, in the bytewise
  lexicographic order of strings.
\<close>

definition updateContexts :: "Model \<Rightarrow> Model" where
  "updateContexts m =
     (let cs = sort (remdups (map Context (tasks m)));
          m1 = m\<lparr>contexts := cs\<rparr>
      in if currentContext m1 = [] \<or> currentContext m1 \<notin> set (map Context (tasks m))
         then (if len cs > 0
               then m1\<lparr>currentContext := cs ! 0\<rparr>
               else m1\<lparr>currentContext := ''Work'', contexts := [''Work'']\<rparr>)
         else m1)"

subsection \<open>Search\<close>

definition noMatchMessage :: "string \<Rightarrow> string" where
  "noMatchMessage query = ''No tasks matching '' @ [CHR 0x27] @ query @ [CHR 0x27]"

definition searchTasks :: "string \<Rightarrow> Model \<Rightarrow> Model" where
  "searchTasks query0 m =
     (let query = ToLower query0;
          results = filter (\<lambda>t. Contains (ToLower (Text t)) query) (tasks m)
      in if len results = 0
         then m\<lparr>errorMessage := noMatchMessage query\<rparr>
         else m\<lparr>prevContext := currentContext m, prevIndex := selectedIndex m,
                searchResults := results, viewMode := SearchView, selectedIndex := 0\<rparr>)"

definition exitSearchMode :: "Model \<Rightarrow> Model" where
  "exitSearchMode m =
     m\<lparr>viewMode := NormalView, currentContext := prevContext m,
       selectedIndex := prevIndex m, searchResults := []\<rparr>"

subsection \<open>Undo history\<close>

definition saveStateForUndo :: "Model \<Rightarrow> Model" where
  "saveStateForUndo m =
     (let stateCopy = tasks m;
          m1 = m\<lparr>history := history m @ [stateCopy]\<rparr>
      in if len (history m1) > maxHistory m1
         then m1\<lparr>history := tl (history m1)\<rparr>
         else m1)"

definition undo :: "Model \<Rightarrow> Model" where
  "undo m =
     (if len (history m) = 0
      then m\<lparr>errorMessage := ''Nothing to undo''\<rparr>
      else (let m1 = m\<lparr>tasks := last (history m), history := butlast (history m)\<rparr>;
                m2 = updateContexts m1
            in m2\<lparr>selectedIndex := 0\<rparr>))"

subsection \<open>Loading\<close>

definition welcomeTasks :: "Task list" where
  "welcomeTasks =
     [\<lparr>ID = 1, Text = ''Welcome to your todo app!'', Checked = False, Context = ''Work'',
        Priority = [], Tags = [], DueDate = []\<rparr>,
      \<lparr>ID = 2, Text = ''Press '' @ [CHR 0x27] @ ''a'' @ [CHR 0x27] @ '' to add a new task'',
        Checked = False, Context = ''Work'', Priority = [], Tags = [], DueDate = []\<rparr>,
      \<lparr>ID = 3, Text = ''Press space to toggle completion'', Checked = True,
        Context = ''Personal'', Priority = [], Tags = [], DueDate = []\<rparr>,
      \<lparr>ID = 4, Text = ''Use arrow keys to navigate'', Checked = False,
        Context = ''Personal'', Priority = [], Tags = [], DueDate = []\<rparr>]"

definition createDefaultConfig :: "Model \<Rightarrow> Model" where
  "createDefaultConfig m = m\<lparr>tasks := welcomeTasks, nextID := 5\<rparr>"

text \<open>
  The configuration file is the argument of \<open>loadConfig\<close>: \<open>None\<close> when it cannot be
  read or parsed, otherwise its task list and its \<^verbatim>\<open>next_id\<close>.
\<close>

definition loadConfig :: "(Task list \<times> int) option \<Rightarrow> Model \<Rightarrow> Model" where
  "loadConfig config m =
     (case config of
        None \<Rightarrow> createDefaultConfig m
      | Some (configTasks, configNextID) \<Rightarrow>
          (let m1 = m\<lparr>tasks := configTasks, nextID := configNextID\<rparr>
           in if nextID m1 = 0
              then (let maxID = fold (\<lambda>task mx. if ID task > mx then ID task else mx) (tasks m1) 0
                    in m1\<lparr>nextID := wrap64 (maxID + 1)\<rparr>)
              else m1))"

definition zeroModel :: Model where
  "zeroModel =
     \<lparr>tasks = [], contexts = [], currentContext = [], selectedIndex = 0, nextID = 0,
      viewMode = NormalView, inputMode = AddTaskInput, searchResults = [], prevContext = [],
      prevIndex = 0, movingMode = False, movingTaskIndex = 0, dateInputIndex = 0,
      removeTagIndex = 0, removeTagChecks = [], inputPrompt = [], windowWidth = 0,
      windowHeight = 0, errorMessage = [], history = [], maxHistory = 0\<rparr>"

definition Initialize :: "(Task list \<times> int) option \<Rightarrow> Model" where
  "Initialize config =
     updateContexts (loadConfig config (zeroModel\<lparr>maxHistory := 50, viewMode := NormalView\<rparr>))"

subsection \<open>Dialogs\<close>

definition showInputDialog :: "InputMode \<Rightarrow> string \<Rightarrow> Model \<Rightarrow> Model" where
  "showInputDialog mode prompt m =
     m\<lparr>viewMode := InputView, inputMode := mode, inputPrompt := prompt\<rparr>"

definition showDateInputDialog :: "Model \<Rightarrow> Model" where
  "showDateInputDialog m = m\<lparr>viewMode := DateInputView, dateInputIndex := 0\<rparr>"

definition showRemoveTagDialog :: "Model \<Rightarrow> error + Model" where
  "showRemoveTagDialog m =
     (case getCurrentTask m of
        Inl e \<Rightarrow> Inl e
      | Inr task \<Rightarrow>
          if len (Tags task) = 0 then Inr (m\<lparr>errorMessage := ''No tags to remove''\<rparr>)
          else Inr (m\<lparr>viewMode := RemoveTagView, removeTagIndex := 0,
                      removeTagChecks := replicate (length (Tags task)) False\<rparr>))"

subsection \<open>The Update dispatcher\<close>

text \<open>
  A key message is the binding of the key map that the key matches (the bindings used by
  \<^verbatim>\<open>Update\<close> have pairwise disjoint keys, so at most one matches), together with the
  values that the text widgets hold when the message arrives: the widgets belong to a
  library, and what the user has typed into them is an input of the step.
\<close>

datatype key =
  KeyQuit | KeyBack | KeyUp | KeyDown | KeyLeft | KeyRight | KeyToggle | KeyAdd | KeyEdit
  | KeyDelete | KeySearch | KeyAddContext | KeyRenameContext | KeyDeleteContext
  | KeyTogglePriority | KeyAddTag | KeyRemoveTag | KeySetDueDate | KeyClearDueDate
  | KeyKanbanView | KeyStatsView | KeyUndo | KeyMove | KeyEnter | KeyOther

record widgets =
  textValue :: string
  dayValue :: string
  monthValue :: string
  yearValue :: string

datatype msg = WindowSizeMsg int int | KeyMsg key widgets | OtherMsg

definition andThen :: "error + 'a \<Rightarrow> ('a \<Rightarrow> error + 'b) \<Rightarrow> error + 'b" where
  "andThen r f = (case r of Inl e \<Rightarrow> Inl e | Inr x \<Rightarrow> f x)"

definition updateInputMode :: "key \<Rightarrow> widgets \<Rightarrow> Model \<Rightarrow> error + Model" where
  "updateInputMode k w m =
     (case k of
        KeyBack \<Rightarrow> Inr (m\<lparr>viewMode := NormalView\<rparr>)
      | KeyEnter \<Rightarrow>
          (let input = TrimSpace (textValue w)
           in andThen
                (case inputMode m of
                   AddTaskInput \<Rightarrow>
                     if input \<noteq> [] then Inr (addTask input (saveStateForUndo m)) else Inr m
                 | EditTaskInput \<Rightarrow>
                     if input \<noteq> [] then editCurrentTask input (saveStateForUndo m) else Inr m
                 | AddContextInput \<Rightarrow>
                     if input \<noteq> [] then Inr (addContext input m) else Inr m
                 | RenameContextInput \<Rightarrow>
                     if input \<noteq> [] \<and> input \<noteq> currentContext m
                     then Inr (renameContext input m) else Inr m
                 | AddTagInput \<Rightarrow>
                     if input \<noteq> [] then addTagToCurrentTask input (saveStateForUndo m)
                     else Inr m
                 | SearchInput \<Rightarrow>
                     if input \<noteq> [] then Inr (searchTasks input m)
                     else Inr (m\<lparr>viewMode := NormalView\<rparr>)
                 | DeleteConfirmInput \<Rightarrow>
                     if ToLower input = ''y'' then Inr (deleteContext (saveStateForUndo m))
                     else Inr m)
                (\<lambda>m1. Inr (m1\<lparr>viewMode := NormalView\<rparr>)))
      | _ \<Rightarrow> Inr m)"

text \<open>\<^verbatim>\<open>m.dateInputs\<close> has three elements.\<close>

definition dateInputAt :: "int \<Rightarrow> error + unit" where
  "dateInputAt i = (if 0 \<le> i \<and> i < 3 then Inr () else Inl IndexOutOfRange)"

definition updateDateInputMode :: "key \<Rightarrow> widgets \<Rightarrow> Model \<Rightarrow> error + Model" where
  "updateDateInputMode k w m =
     (case k of
        KeyBack \<Rightarrow> Inr (m\<lparr>viewMode := NormalView\<rparr>)
      | KeyEnter \<Rightarrow>
          (let dateStr = yearValue w @ ''-'' @ monthValue w @ ''-'' @ dayValue w
           in andThen (setDueDateForCurrentTask dateStr (saveStateForUndo m))
                (\<lambda>m1. Inr (m1\<lparr>viewMode := NormalView\<rparr>)))
      | KeyUp \<Rightarrow>
          andThen (dateInputAt (dateInputIndex m)) (\<lambda>_.
            (let m1 = m\<lparr>dateInputIndex := (dateInputIndex m - 1 + 3) smod 3\<rparr>
             in andThen (dateInputAt (dateInputIndex m1)) (\<lambda>_. Inr m1)))
      | KeyDown \<Rightarrow>
          andThen (dateInputAt (dateInputIndex m)) (\<lambda>_.
            (let m1 = m\<lparr>dateInputIndex := (dateInputIndex m + 1) smod 3\<rparr>
             in andThen (dateInputAt (dateInputIndex m1)) (\<lambda>_. Inr m1)))
      | _ \<Rightarrow> andThen (dateInputAt (dateInputIndex m)) (\<lambda>_. Inr m))"

definition updateRemoveTagMode :: "key \<Rightarrow> Model \<Rightarrow> error + Model" where
  "updateRemoveTagMode k m =
     (case k of
        KeyBack \<Rightarrow> Inr (m\<lparr>viewMode := NormalView\<rparr>)
      | KeyEnter \<Rightarrow>
          andThen (removeTagsFromCurrentTask (saveStateForUndo m))
            (\<lambda>m1. Inr (m1\<lparr>viewMode := NormalView\<rparr>))
      | KeyUp \<Rightarrow>
          if removeTagIndex m > 0 then Inr (m\<lparr>removeTagIndex := removeTagIndex m - 1\<rparr>)
          else Inr m
      | KeyDown \<Rightarrow>
          andThen (getCurrentTask m) (\<lambda>task.
            if removeTagIndex m < len (Tags task) - 1
            then Inr (m\<lparr>removeTagIndex := removeTagIndex m + 1\<rparr>)
            else Inr m)
      | KeyToggle \<Rightarrow>
          andThen (index (removeTagChecks m) (removeTagIndex m)) (\<lambda>b.
            Inr (m\<lparr>removeTagChecks := (removeTagChecks m)[nat (removeTagIndex m) := \<not> b]\<rparr>))
      | _ \<Rightarrow> Inr m)"

definition deletePrompt :: "string \<Rightarrow> string" where
  "deletePrompt c = ''Delete context '' @ [CHR 0x27] @ c @ [CHR 0x27] @ ''? (y/n):''"

definition updateNormalView :: "key \<Rightarrow> Model \<Rightarrow> error + Model" where
  "updateNormalView k m =
     (case k of
        KeyQuit \<Rightarrow> Inr m
      | KeyBack \<Rightarrow> if viewMode m = SearchView then Inr (exitSearchMode m) else Inr m
      | KeyUp \<Rightarrow> if movingMode m then moveTaskUp m else Inr (moveUp m)
      | KeyDown \<Rightarrow> if movingMode m then moveTaskDown m else Inr (moveDown m)
      | KeyLeft \<Rightarrow> Inr (previousContext m)
      | KeyRight \<Rightarrow> Inr (nextContext m)
      | KeyToggle \<Rightarrow>
          if len (getFilteredTasks m) > 0 then toggleCurrentTask (saveStateForUndo m)
          else Inr m
      | KeyAdd \<Rightarrow> Inr (showInputDialog AddTaskInput ''Add new task:'' m)
      | KeyEdit \<Rightarrow>
          if len (getFilteredTasks m) > 0
          then andThen (getCurrentTask m) (\<lambda>task.
                 Inr (showInputDialog EditTaskInput ''Edit task:'' m))
          else Inr m
      | KeyDelete \<Rightarrow>
          if len (getFilteredTasks m) > 0 then deleteCurrentTask (saveStateForUndo m)
          else Inr m
      | KeyAddContext \<Rightarrow> Inr (showInputDialog AddContextInput ''New context name:'' m)
      | KeyRenameContext \<Rightarrow> Inr (showInputDialog RenameContextInput ''Rename context to:'' m)
      | KeyDeleteContext \<Rightarrow>
          if len (contexts m) > 1
          then Inr (showInputDialog DeleteConfirmInput (deletePrompt (currentContext m)) m)
          else Inr (m\<lparr>errorMessage := ''Cannot delete the only context''\<rparr>)
      | KeyTogglePriority \<Rightarrow>
          if len (getFilteredTasks m) > 0 then toggleCurrentTaskPriority (saveStateForUndo m)
          else Inr m
      | KeyAddTag \<Rightarrow>
          if len (getFilteredTasks m) > 0 then Inr (showInputDialog AddTagInput ''Add tag:'' m)
          else Inr m
      | KeyRemoveTag \<Rightarrow>
          if len (getFilteredTasks m) > 0 then showRemoveTagDialog m else Inr m
      | KeySetDueDate \<Rightarrow>
          if len (getFilteredTasks m) > 0 then Inr (showDateInputDialog m) else Inr m
      | KeyClearDueDate \<Rightarrow>
          if len (getFilteredTasks m) > 0
          then setDueDateForCurrentTask ''clear'' (saveStateForUndo m)
          else Inr m
      | KeySearch \<Rightarrow> Inr (showInputDialog SearchInput ''Search tasks:'' m)
      | KeyKanbanView \<Rightarrow> Inr (m\<lparr>viewMode := KanbanView\<rparr>)
      | KeyStatsView \<Rightarrow> Inr (m\<lparr>viewMode := StatsView\<rparr>)
      | KeyUndo \<Rightarrow> Inr (undo m)
      | KeyMove \<Rightarrow>
          if len (getFilteredTasks m) > 0
          then (let m1 = m\<lparr>movingMode := \<not> movingMode m\<rparr>
                in if movingMode m1 then Inr (m1\<lparr>movingTaskIndex := selectedIndex m1\<rparr>)
                   else Inr (saveStateForUndo m1))
          else Inr m
      | _ \<Rightarrow> Inr m)"

definition updateKanbanView :: "key \<Rightarrow> Model \<Rightarrow> error + Model" where
  "updateKanbanView k m =
     (if k = KeyBack \<or> k = KeyQuit \<or> k = KeyKanbanView then Inr (m\<lparr>viewMode := NormalView\<rparr>)
      else Inr m)"

definition updateStatsView :: "key \<Rightarrow> Model \<Rightarrow> error + Model" where
  "updateStatsView k m =
     (if k = KeyBack \<or> k = KeyQuit \<or> k = KeyStatsView then Inr (m\<lparr>viewMode := NormalView\<rparr>)
      else Inr m)"

definition Update :: "msg \<Rightarrow> Model \<Rightarrow> error + Model" where
  "Update message m0 =
     (case message of
        WindowSizeMsg width height \<Rightarrow> Inr (m0\<lparr>windowWidth := width, windowHeight := height\<rparr>)
      | KeyMsg k w \<Rightarrow>
          (let m = m0\<lparr>errorMessage := []\<rparr>
           in if viewMode m = InputView then updateInputMode k w m
              else if viewMode m = DateInputView then updateDateInputMode k w m
              else if viewMode m = RemoveTagView then updateRemoveTagMode k m
              else (case viewMode m of
                      NormalView \<Rightarrow> updateNormalView k m
                    | SearchView \<Rightarrow> updateNormalView k m
                    | KanbanView \<Rightarrow> updateKanbanView k m
                    | StatsView \<Rightarrow> updateStatsView k m
                    | _ \<Rightarrow> Inr m))
      | OtherMsg \<Rightarrow> Inr m0)"

text \<open>A run of messages stops at the first panic.\<close>

fun run :: "msg list \<Rightarrow> Model \<Rightarrow> error + Model" where
  "run [] m = Inr m"
| "run (x # xs) m = andThen (Update x m) (run xs)"

subsection \<open>Notions used in the statements\<close>

text \<open>The state of a run that did not panic (and the zero model for one that did).\<close>

definition stateOf :: "error + Model \<Rightarrow> Model" where
  "stateOf r = (case r of Inl e \<Rightarrow> zeroModel | Inr m \<Rightarrow> m)"

text \<open>
  The mutating actions before which the dispatcher pushes a snapshot: the changes of a
  task's fields, adding and deleting a task, deleting a context.
\<close>

datatype mutation =
  ToggleChecked | EditText string | CyclePriority | AddTag string | RemoveTags
  | SetDueDate string | AddTask string | DeleteTask | DeleteContext

fun mutate :: "mutation \<Rightarrow> Model \<Rightarrow> error + Model" where
  "mutate ToggleChecked m = toggleCurrentTask m"
| "mutate (EditText newText) m = editCurrentTask newText m"
| "mutate CyclePriority m = toggleCurrentTaskPriority m"
| "mutate (AddTag tag) m = addTagToCurrentTask tag m"
| "mutate RemoveTags m = removeTagsFromCurrentTask m"
| "mutate (SetDueDate dateStr) m = setDueDateForCurrentTask dateStr m"
| "mutate (AddTask taskText) m = Inr (addTask taskText m)"
| "mutate DeleteTask m = deleteCurrentTask m"
| "mutate DeleteContext m = Inr (deleteContext m)"

text \<open>
  The context registry as the specification describes a rebuild: the distinct contexts
  of the tasks in ascending order, or the single default context when there is no task.
\<close>

definition registryOf :: "Task list \<Rightarrow> string list" where
  "registryOf ts = (if ts = [] then [''Work''] else sort (remdups (map Context ts)))"

definition toggledExample :: Model where
  "toggledExample = stateOf (toggleCurrentTask (saveStateForUndo (Initialize None)))"

section \<open>Properties\<close>

subsection \<open>General facts\<close>

lemma nth0_mem: "xs \<noteq> [] \<Longrightarrow> xs ! 0 \<in> set xs"
  by (cases xs) simp_all

lemma registry_head:
  assumes "ts \<noteq> []"
  shows "sort (remdups (map Context ts)) ! 0 \<in> Context ` set ts"
proof -
  have "set (sort (remdups (map Context ts))) \<noteq> {}"
    using assms by simp
  then have "sort (remdups (map Context ts)) \<noteq> []"
    by fastforce
  from nth0_mem [OF this] show ?thesis
    by simp
qed

lemma updateContexts_contexts: "contexts (updateContexts m) = registryOf (tasks m)"
  by (auto simp: updateContexts_def registryOf_def Let_def len_def)

lemma updateContexts_current:
  "currentContext (updateContexts m) \<in> set (contexts (updateContexts m))"
  using registry_head [of "tasks m"]
  by (auto simp: updateContexts_def Let_def len_def)

lemma updateContexts_frame:
  "tasks (updateContexts m) = tasks m \<and> history (updateContexts m) = history m \<and>
   nextID (updateContexts m) = nextID m \<and> selectedIndex (updateContexts m) = selectedIndex m"
  by (simp add: updateContexts_def Let_def)

subsection \<open>Undo\<close>

lemma onCurrentTask_history:
  assumes "onCurrentTask m body = Inr m1"
    and "\<And>i m'. body i = Inr m' \<Longrightarrow> history m' = history m \<and> maxHistory m' = maxHistory m"
  shows "history m1 = history m \<and> maxHistory m1 = maxHistory m"
  using assms
  by (auto simp: onCurrentTask_def Let_def split: if_splits sum.splits option.splits)

lemma mutate_history:
  assumes "mutate \<mu> m = Inr m1"
  shows "history m1 = history m \<and> maxHistory m1 = maxHistory m"
proof (cases \<mu>)
  case ToggleChecked
  with assms show ?thesis
    by (auto simp: toggleCurrentTask_def elim!: onCurrentTask_history)
next
  case (EditText s)
  with assms show ?thesis
    by (auto simp: editCurrentTask_def elim!: onCurrentTask_history)
next
  case CyclePriority
  with assms show ?thesis
    by (auto simp: toggleCurrentTaskPriority_def elim!: onCurrentTask_history)
next
  case (AddTag s)
  with assms show ?thesis
    by (auto simp: addTagToCurrentTask_def elim!: onCurrentTask_history split: if_splits)
next
  case RemoveTags
  with assms show ?thesis
    by (auto simp: removeTagsFromCurrentTask_def elim!: onCurrentTask_history split: sum.splits)
next
  case (SetDueDate s)
  with assms show ?thesis
    by (auto simp: setDueDateForCurrentTask_def elim!: onCurrentTask_history split: if_splits)
next
  case (AddTask s)
  with assms show ?thesis
    by (auto simp: addTask_def Let_def)
next
  case DeleteTask
  with assms show ?thesis
    by (auto simp: deleteCurrentTask_def Let_def split: if_splits sum.splits option.splits)
next
  case DeleteContext
  with assms show ?thesis
    by (auto simp: deleteContext_def Let_def split: if_splits)
qed

lemma saveStateForUndo_last:
  "0 < maxHistory m \<Longrightarrow>
     history (saveStateForUndo m) \<noteq> [] \<and> last (history (saveStateForUndo m)) = tasks m \<and>
     butlast (history (saveStateForUndo m)) =
       (if len (history m) \<ge> maxHistory m then tl (history m) else history m)"
  by (cases "history m") (auto simp: saveStateForUndo_def Let_def len_def)

text \<open>
  Claim C4. Pushing a snapshot, applying any of the mutating actions and undoing gives back
  the task sequence of before the action; the undo also rebuilds the context registry from
  the restored tasks (leaving a current context that is in the registry), puts the cursor
  on 0 and removes the snapshot from the history. With an empty history, undo changes only
  the message, to "Nothing to undo". The history bound is positive (it is 50 from
  \<open>Initialize\<close> on and never assigned again).
\<close>

theorem undo_restores_snapshot:
  "(0 < maxHistory m \<and> mutate \<mu> (saveStateForUndo m) = Inr m1 \<longrightarrow>
      tasks (undo m1) = tasks m \<and>
      contexts (undo m1) = registryOf (tasks m) \<and>
      currentContext (undo m1) \<in> set (contexts (undo m1)) \<and>
      selectedIndex (undo m1) = 0 \<and>
      history (undo m1) =
        (if len (history m) \<ge> maxHistory m then tl (history m) else history m)) \<and>
   (history m = [] \<longrightarrow> undo m = m\<lparr>errorMessage := ''Nothing to undo''\<rparr>)"
proof (intro conjI impI)
  show "undo m = m\<lparr>errorMessage := ''Nothing to undo''\<rparr>" if "history m = []"
    using that by (simp add: undo_def len_def)
next
  assume a: "0 < maxHistory m \<and> mutate \<mu> (saveStateForUndo m) = Inr m1"
  then have h: "history m1 = history (saveStateForUndo m)"
    using mutate_history by blast
  from a saveStateForUndo_last [of m]
  have ne: "history m1 \<noteq> []" and la: "last (history m1) = tasks m"
    and bl: "butlast (history m1) =
       (if len (history m) \<ge> maxHistory m then tl (history m) else history m)"
    by (simp_all add: h)
  let ?m1 = "m1\<lparr>tasks := last (history m1), history := butlast (history m1)\<rparr>"
  have u: "undo m1 = (updateContexts ?m1)\<lparr>selectedIndex := 0\<rparr>"
    using ne by (simp add: undo_def len_def Let_def)
  show "tasks (undo m1) = tasks m"
    by (simp add: u updateContexts_frame la)
  show "contexts (undo m1) = registryOf (tasks m)"
    by (simp add: u updateContexts_contexts la)
  show "currentContext (undo m1) \<in> set (contexts (undo m1))"
    using updateContexts_current [of ?m1] by (simp add: u)
  show "selectedIndex (undo m1) = 0"
    by (simp add: u)
  show "history (undo m1) =
        (if len (history m) \<ge> maxHistory m then tl (history m) else history m)"
    using bl by (simp add: u updateContexts_frame)
qed

theorem undo_restores_snapshot_witness:
  "0 < maxHistory (Initialize None) \<and>
   mutate ToggleChecked (saveStateForUndo (Initialize None)) = Inr toggledExample \<and>
   tasks toggledExample \<noteq> tasks (Initialize None) \<and>
   tasks (undo toggledExample) = tasks (Initialize None) \<and>
   contexts (undo toggledExample) = [''Personal'', ''Work''] \<and>
   selectedIndex (undo toggledExample) = 0 \<and>
   history (undo toggledExample) = [] \<and>
   undo (Initialize None) = (Initialize None)\<lparr>errorMessage := ''Nothing to undo''\<rparr>"
proof -
  have h1: "0 < maxHistory (Initialize None)"
    by code_simp
  have h2: "mutate ToggleChecked (saveStateForUndo (Initialize None)) = Inr toggledExample"
    by code_simp
  have h3: "history (Initialize None) = []"
    by code_simp
  have h4: "tasks toggledExample \<noteq> tasks (Initialize None)"
    by code_simp
  have h5: "registryOf (tasks (Initialize None)) = [''Personal'', ''Work'']"
    by code_simp
  from undo_restores_snapshot [of "Initialize None" ToggleChecked toggledExample] h1 h2 h3 h4 h5
  show ?thesis
    by (simp add: len_def)
qed

end
